theory Spec2Isabelle
  imports Main
begin

section \<open>The viewer script \<open>static/js/main.js\<close>\<close>

text \<open>
  The script is a set of event handlers over the page. Each handler is embedded as a
  function from the part of the page it reads and writes to the new value of that part.
  Elements the script fetches with \<open>getElementById\<close> and uses without a null check are
  fields of a record; elements it checks for (\<open>if (el)\<close>) live in a partial map from
  element id to element. Values that come from the browser and not from the script (the
  clock behind \<open>new Date()\<close>, the number formatting of \<open>toFixed\<close> and
  \<open>toLocaleString\<close>, the server's replies) are arguments of the handlers.
\<close>

subsection \<open>Live chart buffers: \<open>createMqChart\<close>, \<open>updateChart\<close>\<close>

text \<open>
  A chart holds \<open>data.labels\<close>, \<open>data.datasets[0].data\<close> and, when
  \<open>createMqChart\<close> was given a second colour, \<open>data.datasets[1].data\<close>. No code adds
  or removes a dataset afterwards. The numbers plotted are of an arbitrary type \<open>'n\<close>.
\<close>

record 'n chart =
  labels :: "string list"
  data0 :: "'n list"
  data1 :: "'n list option"

definition createMqChart :: "bool \<Rightarrow> 'n chart" where
  "createMqChart color2 =
     \<lparr>labels = [], data0 = [], data1 = (if color2 then Some [] else None)\<rparr>"

text \<open>
  \<open>updateChart(chart, val1, val2 = null)\<close>; \<open>timeLabel\<close> is the clock reading formatted
  as \<open>HH:MM:SS\<close>. \<open>Array.shift\<close> on an empty array does nothing, as \<open>tl []\<close>.
\<close>

definition updateChart :: "'n chart \<Rightarrow> string \<Rightarrow> 'n \<Rightarrow> 'n option \<Rightarrow> 'n chart" where
  "updateChart chart timeLabel val1 val2 =
     (let c1 = (if length (labels chart) > 20
                then chart\<lparr>labels := tl (labels chart),
                           data0 := tl (data0 chart),
                           data1 := map_option tl (data1 chart)\<rparr>
                else chart);
          c2 = c1\<lparr>labels := labels c1 @ [timeLabel], data0 := data0 c1 @ [val1]\<rparr>
      in (case data1 c2 of
            None \<Rightarrow> c2
          | Some d \<Rightarrow> (case val2 of None \<Rightarrow> c2 | Some v \<Rightarrow> c2\<lparr>data1 := Some (d @ [v])\<rparr>)))"

text \<open>
  A chart gains one point: the new label and value stand at the end of what was there
  before, less at most one point evicted at the front; the second dataset, if there is
  one, loses the same point at the front and gains the second value, if there is one.
\<close>

definition one_point_appended ::
  "'n chart \<Rightarrow> 'n chart \<Rightarrow> string \<Rightarrow> 'n \<Rightarrow> 'n option \<Rightarrow> bool" where
  "one_point_appended before after timeLabel val1 val2 =
     (\<exists>k. k \<le> 1 \<and> labels after = drop k (labels before) @ [timeLabel] \<and>
            data0 after = drop k (data0 before) @ [val1] \<and>
            data1 after = map_option (\<lambda>d. drop k d @ (case val2 of None \<Rightarrow> [] | Some v \<Rightarrow> [v]))
                            (data1 before))"

text \<open>A sequence of \<open>updateChart\<close> calls on one chart, each with its label and values.\<close>

fun updateChart_calls :: "'n chart \<Rightarrow> (string \<times> 'n \<times> 'n option) list \<Rightarrow> 'n chart" where
  "updateChart_calls chart [] = chart"
| "updateChart_calls chart ((timeLabel, val1, val2) # rest) =
     updateChart_calls (updateChart chart timeLabel val1 val2) rest"

subsection \<open>The terminal: \<open>logToTerminal\<close> and the \<open>command_output\<close> handler\<close>

text \<open>
  The terminal element is the list of its child \<open>div\<close>s, each given by its
  \<open>textContent\<close>. \<open>appendChild\<close> adds at the end.
\<close>

type_synonym terminal = "string list"

record command_output_msg =
  line :: string

definition logToTerminal :: "terminal \<Rightarrow> string \<Rightarrow> terminal" where
  "logToTerminal terminal text = terminal @ [text]"

definition on_command_output :: "terminal \<Rightarrow> command_output_msg \<Rightarrow> terminal" where
  "on_command_output terminal data = logToTerminal terminal (line data)"

text \<open>The events of a stream are handled one after the other, in delivery order.\<close>

fun deliver_command_output :: "terminal \<Rightarrow> command_output_msg list \<Rightarrow> terminal" where
  "deliver_command_output terminal [] = terminal"
| "deliver_command_output terminal (data # rest) =
     deliver_command_output (on_command_output terminal data) rest"

subsection \<open>Strings\<close>

text \<open>
  \<open>toLowerCase\<close> on the ASCII letters; the only use is the comparison with
  \<open>running\<close>, which no string with a letter outside ASCII lower-cases to.
\<close>

definition toLowerCase_char :: "char \<Rightarrow> char" where
  "toLowerCase_char c =
     (case map_of (zip ''ABCDEFGHIJKLMNOPQRSTUVWXYZ'' ''abcdefghijklmnopqrstuvwxyz'') c of
        None \<Rightarrow> c
      | Some l \<Rightarrow> l)"

definition toLowerCase :: "string \<Rightarrow> string" where
  "toLowerCase s = map toLowerCase_char s"

text \<open>
  \<open>a || b\<close> where \<open>a\<close> is a field that holds a string or is absent: the empty
  string and \<open>undefined\<close> are falsy.
\<close>

definition js_or :: "string option \<Rightarrow> string \<Rightarrow> string" where
  "js_or a b = (case a of None \<Rightarrow> b | Some s \<Rightarrow> if s = [] then b else s)"

text \<open>A template literal \<open>${x}\<close> of a variable that holds a string or \<open>null\<close>.\<close>

definition template_of :: "string option \<Rightarrow> string" where
  "template_of x = (case x of None \<Rightarrow> ''null'' | Some s \<Rightarrow> s)"

subsection \<open>Status badges: the \<open>status_update\<close> handler\<close>

text \<open>
  The badges are the elements with an id \<open>status-<key>\<close>; the handler looks each one
  up and skips the keys that have none. The message is the list of
  \<open>Object.entries(data)\<close>.
\<close>

record badge =
  className :: string
  innerText :: string

type_synonym badges = "string \<rightharpoonup> badge"

definition status_element_id :: "string \<Rightarrow> string" where
  "status_element_id key = ''status-'' @ key"

definition status_update_entry :: "badges \<Rightarrow> string \<times> string \<Rightarrow> badges" where
  "status_update_entry bs entry =
     (case entry of (key, status) \<Rightarrow>
        (case bs (status_element_id key) of
           None \<Rightarrow> bs
         | Some el \<Rightarrow>
             if status = ''running''
             then bs(status_element_id key \<mapsto>
                       el\<lparr>className := ''badge bg-success ms-2'', innerText := ''Running''\<rparr>)
             else bs(status_element_id key \<mapsto>
                       el\<lparr>className := ''badge bg-danger ms-2'', innerText := ''Stopped''\<rparr>)))"

fun on_status_update :: "badges \<Rightarrow> (string \<times> string) list \<Rightarrow> badges" where
  "on_status_update bs [] = bs"
| "on_status_update bs (entry # rest) = on_status_update (status_update_entry bs entry) rest"

text \<open>
  The texts the script ever gives a status badge: the two above, and \<open>Checking...\<close>
  in the markup of a new connector card.
\<close>

definition badge_texts :: "string set" where
  "badge_texts = {''Running'', ''Stopped'', ''Checking...''}"

subsection \<open>Labels arrays and the charts of the page: \<open>loadHistory\<close>\<close>

text \<open>
  \<open>chart.data.labels\<close> is a reference to an array, and \<open>updateChart\<close> shifts and
  pushes in place. \<open>createMqChart\<close> and \<open>createHistChart\<close> give each chart an array
  of its own, but the callback of \<open>loadHistory\<close> (lines 99 to 146, run when the page
  starts and every five minutes) builds one \<open>labels\<close> array and assigns it to all six
  charts. So the labels arrays live in a store, from addresses to contents, and a chart
  of the page is the address of its labels array together with its datasets. The
  dataset arrays are made one for each dataset and are values of the chart.
\<close>

type_synonym label_arrays = "nat \<Rightarrow> string list"

record 'n plot =
  labels_at :: nat
  plot_data0 :: "'n list"
  plot_data1 :: "'n list option"

text \<open>The chart as it reads through the store.\<close>

definition chart_of :: "label_arrays \<Rightarrow> 'n plot \<Rightarrow> 'n chart" where
  "chart_of arrays p =
     \<lparr>labels = arrays (labels_at p), data0 = plot_data0 p, data1 = plot_data1 p\<rparr>"

text \<open>
  \<open>updateChart\<close> on a chart of the page: the array at the chart's address takes the
  new labels, whoever else reads it.
\<close>

definition updateChart_at ::
  "label_arrays \<Rightarrow> 'n plot \<Rightarrow> string \<Rightarrow> 'n \<Rightarrow> 'n option \<Rightarrow> label_arrays \<times> 'n plot" where
  "updateChart_at arrays p timeLabel val1 val2 =
     (let c = updateChart (chart_of arrays p) timeLabel val1 val2
      in (arrays(labels_at p := labels c),
          p\<lparr>plot_data0 := data0 c, plot_data1 := data1 c\<rparr>))"

text \<open>
  The datasets of a chart gain one value each: the new value stands at the end of what
  was there before, less at most one value evicted at the front.
\<close>

definition one_value_appended :: "'n plot \<Rightarrow> 'n plot \<Rightarrow> 'n \<Rightarrow> 'n option \<Rightarrow> bool" where
  "one_value_appended before after val1 val2 =
     (\<exists>k. k \<le> 1 \<and> plot_data0 after = drop k (plot_data0 before) @ [val1] \<and>
            plot_data1 after =
              map_option (\<lambda>d. drop k d @ (case val2 of None \<Rightarrow> [] | Some v \<Rightarrow> [v]))
                (plot_data1 before))"

subsection \<open>Queue broker panel: the \<open>rabbitmq\<close> part of the \<open>system_stats\<close> handler\<close>

text \<open>
  Lines 190 to 206 of the handler write the cpu, ram, disk and network elements only;
  the part embedded here is the block under \<open>if (data.rabbitmq)\<close>. The block carries
  its \<open>status\<close>, an \<open>error\<close> that may be absent, and the four numbers the online
  branch reads.
\<close>

record 'n rabbitmq =
  status :: string
  error :: "string option"
  messages_ready :: 'n
  messages_total :: 'n
  publish_rate :: 'n
  deliver_rate :: 'n

record 'n number_format =
  toLocaleString :: "'n \<Rightarrow> string"
  toFixed1 :: "'n \<Rightarrow> string"

text \<open>
  The page as far as the charts go: the indicator and the four text fields of the queue
  broker, the store of labels arrays with the address of the next array the script
  makes, and the six charts.
\<close>

record 'n dashboard =
  mq_status_className :: string
  mq_status_innerText :: string
  mq_queued_innerText :: string
  mq_total_innerText :: string
  mq_rate_in_innerText :: string
  mq_rate_out_innerText :: string
  label_arrays :: label_arrays
  next_array :: nat
  chartQueued :: "'n plot"
  chartTotal :: "'n plot"
  chartRate :: "'n plot"
  histCpu :: "'n plot"
  histRam :: "'n plot"
  histDisk :: "'n plot"

text \<open>
  The three labels are the clock readings of the three \<open>updateChart\<close> calls, which
  run one after the other on the same store.
\<close>

definition on_system_stats ::
  "'n number_format \<Rightarrow> string \<times> string \<times> string \<Rightarrow> 'n dashboard \<Rightarrow>
   'n rabbitmq option \<Rightarrow> 'n dashboard" where
  "on_system_stats fmt clock p data_rabbitmq =
     (case data_rabbitmq of
        None \<Rightarrow> p
      | Some mq \<Rightarrow>
          (case clock of (t1, t2, t3) \<Rightarrow>
             if status mq = ''online''
             then (case updateChart_at (label_arrays p) (chartQueued p) t1
                          (messages_ready mq) None of
                     (arrays1, new_queued) \<Rightarrow>
                  (case updateChart_at arrays1 (chartTotal p) t2 (messages_total mq) None of
                     (arrays2, new_total) \<Rightarrow>
                  (case updateChart_at arrays2 (chartRate p) t3 (publish_rate mq)
                          (Some (deliver_rate mq)) of
                     (arrays3, new_rate) \<Rightarrow>
                       p\<lparr>mq_status_className := ''badge bg-success'',
                         mq_status_innerText := ''Online'',
                         mq_queued_innerText := toLocaleString fmt (messages_ready mq),
                         mq_total_innerText := toLocaleString fmt (messages_total mq),
                         mq_rate_in_innerText := toFixed1 fmt (publish_rate mq),
                         mq_rate_out_innerText := toFixed1 fmt (deliver_rate mq),
                         label_arrays := arrays3,
                         chartQueued := new_queued,
                         chartTotal := new_total,
                         chartRate := new_rate\<rparr>)))
             else p\<lparr>mq_status_className := ''badge bg-danger'',
                    mq_status_innerText := ''Offline ('' @ js_or (error mq) ''Err'' @ '')''\<rparr>))"

text \<open>
  The callback of \<open>loadHistory\<close> on the reply \<open>d\<close>: \<open>d.data || []\<close> is the list of
  history points, each with the \<open>HH:MM\<close> reading of its timestamp. The one new
  \<open>labels\<close> array goes to all six charts; each dataset gets an array of its own. The
  three average texts, which no chart reads, are left out.
\<close>

record 'n history_point =
  time_label :: string
  cpu :: 'n
  ram :: 'n
  disk :: 'n
  mq_queued :: "'n option"
  mq_total :: "'n option"
  mq_rate_in :: "'n option"
  mq_rate_out :: "'n option"

definition or_zero :: "'n::zero option \<Rightarrow> 'n" where
  "or_zero x = (case x of None \<Rightarrow> 0 | Some v \<Rightarrow> v)"

definition loadHistory_then ::
  "('n::zero) dashboard \<Rightarrow> 'n history_point list option \<Rightarrow> 'n dashboard" where
  "loadHistory_then p d_data =
     (let points = (case d_data of None \<Rightarrow> [] | Some ps \<Rightarrow> ps);
          a = next_array p
      in p\<lparr>label_arrays := (label_arrays p)(a := map time_label points),
            next_array := Suc a,
            histCpu := (histCpu p)\<lparr>labels_at := a, plot_data0 := map cpu points\<rparr>,
            histRam := (histRam p)\<lparr>labels_at := a, plot_data0 := map ram points\<rparr>,
            histDisk := (histDisk p)\<lparr>labels_at := a, plot_data0 := map disk points\<rparr>,
            chartQueued := (chartQueued p)\<lparr>labels_at := a,
              plot_data0 := map (\<lambda>pt. or_zero (mq_queued pt)) points\<rparr>,
            chartTotal := (chartTotal p)\<lparr>labels_at := a,
              plot_data0 := map (\<lambda>pt. or_zero (mq_total pt)) points\<rparr>,
            chartRate := (chartRate p)\<lparr>labels_at := a,
              plot_data0 := map (\<lambda>pt. or_zero (mq_rate_in pt)) points,
              plot_data1 := map_option (\<lambda>d. map (\<lambda>pt. or_zero (mq_rate_out pt)) points)
                              (plot_data1 (chartRate p))\<rparr>\<rparr>)"

subsection \<open>Config editor: \<open>unlockConfig\<close>, \<open>checkPassword\<close>, \<open>saveConfig\<close>\<close>

text \<open>
  The editor modal, the password modal, the status badges, the alerts shown and the
  requests sent. \<open>d_none\<close> says that the button carries the class \<open>d-none\<close>, that
  is, that it is hidden.
\<close>

record editor_page =
  currentEditingName :: "string option"
  editor_value :: string
  editor_readOnly :: bool
  editor_borderColor :: string
  editor_msg_innerText :: string
  editor_msg_className :: string
  btn_lock_d_none :: bool
  btn_save_d_none :: bool
  unlock_password_value :: string
  password_error_innerText :: string
  passwordModal_shown :: bool
  status_badges :: badges
  alerts :: "string list"
  posted :: "(string \<times> string) list"

definition status_badge_id :: "editor_page \<Rightarrow> string" where
  "status_badge_id s = status_element_id (''connector_'' @ template_of (currentEditingName s))"

text \<open>What the status badge of the connector being edited reads, if there is one.\<close>

definition displayed_status :: "editor_page \<Rightarrow> string option" where
  "displayed_status s = map_option innerText (status_badges s (status_badge_id s))"

definition unlockConfig :: "editor_page \<Rightarrow> editor_page" where
  "unlockConfig s =
     (let statusBadge = status_badges s (status_badge_id s);
          running = (case statusBadge of
                       None \<Rightarrow> False
                     | Some b \<Rightarrow> toLowerCase (innerText b) = ''running'')
      in if running
         then s\<lparr>alerts := alerts s @
                  [''You must STOP the connector before editing the configuration.'']\<rparr>
         else s\<lparr>unlock_password_value := [],
                password_error_innerText := [],
                passwordModal_shown := True\<rparr>)"

definition checkPassword :: "editor_page \<Rightarrow> editor_page" where
  "checkPassword s =
     (let pwd = unlock_password_value s
      in if pwd = ''P@ssw0rd''
         then s\<lparr>passwordModal_shown := False,
                editor_readOnly := False,
                editor_borderColor := ''#ffc107'',
                btn_lock_d_none := True,
                btn_save_d_none := False\<rparr>
         else s\<lparr>password_error_innerText := ''Incorrect password.''\<rparr>)"

text \<open>
  \<open>saveConfig\<close> runs in two steps: the call itself, which shows \<open>Saving...\<close> and
  sends the request, and later the callback on the outcome of the request. The reply is
  the parsed JSON object, each of whose fields may be absent; a request that fails, or a
  reply that is not a JSON object, ends in the \<open>catch\<close> callback.
\<close>

record save_reply =
  reply_status :: "string option"
  reply_backup :: "string option"
  reply_error :: "string option"

datatype fetch_outcome = Json save_reply | Rejected

definition saveConfig :: "editor_page \<Rightarrow> editor_page" where
  "saveConfig s =
     s\<lparr>editor_msg_innerText := ''Saving...'',
       editor_msg_className := ''text-warning small ms-2'',
       posted := posted s @
         [(''/api/connector/'' @ template_of (currentEditingName s) @ ''/config'',
           editor_value s)]\<rparr>"

definition saveConfig_then :: "editor_page \<Rightarrow> save_reply \<Rightarrow> editor_page" where
  "saveConfig_then s data =
     (if reply_status data = Some ''success''
      then s\<lparr>editor_msg_className := ''text-success small ms-2'',
             editor_msg_innerText := ''Saved! Backup: '' @
               (case reply_backup data of None \<Rightarrow> ''undefined'' | Some b \<Rightarrow> b),
             editor_readOnly := True,
             editor_borderColor := [],
             btn_lock_d_none := False,
             btn_save_d_none := True\<rparr>
      else s\<lparr>editor_msg_className := ''text-danger small ms-2'',
             editor_msg_innerText := js_or (reply_error data) ''Save failed''\<rparr>)"

definition saveConfig_catch :: "editor_page \<Rightarrow> editor_page" where
  "saveConfig_catch s =
     s\<lparr>editor_msg_className := ''text-danger small ms-2'',
       editor_msg_innerText := ''Network error during save''\<rparr>"

definition saveConfig_settled :: "editor_page \<Rightarrow> fetch_outcome \<Rightarrow> editor_page" where
  "saveConfig_settled s outcome =
     (case outcome of Json data \<Rightarrow> saveConfig_then s data | Rejected \<Rightarrow> saveConfig_catch s)"

subsection \<open>Connector cards: the \<open>known_connectors\<close> handler\<close>

text \<open>
  The handler first stops the spinner of the refresh button, which is outside the
  container and is left out here.

  The container \<open>connectors-list\<close> is the list of its child elements. A child is a
  connector card (an element of class \<open>connector-card-col\<close>, with its \<open>data-name\<close> and
  \<open>data-valid\<close> attributes), the element with id \<open>connectors-loading\<close>, or anything
  else, such as the \<open>No connectors found.\<close> note; the handler reads nothing else of an
  element. \<open>querySelectorAll\<close> and \<open>querySelector\<close> search all descendants of the
  container. Here the cards are among the children only: the containers of the
  embedding are those whose children have no element of class \<open>connector-card-col\<close>
  inside them, as the loading element, the note, and the cards that are read off the
  markup below.

  Elements have an identity: the handler keeps the cards it found at the start and
  later removes some of them, whatever has happened to the container in between. Each
  node carries an id, and the container hands out fresh ids to the nodes it creates.
\<close>

datatype element = Card string string | Loading | Other string

fun is_card :: "element \<Rightarrow> bool" where
  "is_card (Card n v) = True"
| "is_card _ = False"

fun data_name :: "element \<Rightarrow> string" where
  "data_name (Card n v) = n"
| "data_name _ = []"

fun data_valid :: "element \<Rightarrow> string" where
  "data_valid (Card n v) = v"
| "data_valid _ = []"

record node =
  nid :: nat
  elem :: element

record container =
  children :: "node list"
  next_id :: nat









text \<open>
  An exception ends the handler where it is thrown, leaving the container as it then
  is. \<open>Unmodelled\<close> is the handler on markup or on a selector that the embedding does
  not read.
\<close>

datatype js_error = TypeError | SyntaxError

datatype outcome = Done container | Thrown js_error container | Unmodelled







text \<open>
  \<open>querySelectorAll('.connector-card-col')\<close> returns the elements of the class in
  document order, which in these containers are the cards among the children.
\<close>

definition querySelectorAll_cards :: "node list \<Rightarrow> node list" where
  "querySelectorAll_cards ns = filter (\<lambda>n. is_card (elem n)) ns"









text \<open>
  What a list of children shows: the names of its cards, and each card's name and
  validity, as the handler reads it; and the same of an entry of the received list.
\<close>

definition card_names :: "node list \<Rightarrow> string list" where
  "card_names ns = map (\<lambda>n. data_name (elem n)) (querySelectorAll_cards ns)"

definition card_attrs :: "node list \<Rightarrow> (string \<times> bool) list" where
  "card_attrs ns =
     map (\<lambda>n. (data_name (elem n), data_valid (elem n) = ''true'')) (querySelectorAll_cards ns)"


text \<open>The card of a connector, as the markup with a plain name is read.\<close>

definition connector_card :: "string \<Rightarrow> bool \<Rightarrow> element" where
  "connector_card nm hasConfig = (if \<not> hasConfig then Card nm ''false'' else Card nm ''true'')"

text \<open>
  Node ids are identities: no two children share one, and none is an id the container
  has yet to hand out.
\<close>

definition wf_ids :: "container \<Rightarrow> bool" where
  "wf_ids c =
     (distinct (map nid (children c)) \<and> list_all (\<lambda>n. nid n < next_id c) (children c))"





subsection \<open>Example inputs\<close>

text \<open>
  A page with the editor open and locked on the connector \<open>misp\<close>, whose status badge
  reads the given text.
\<close>

definition example_page :: "string \<Rightarrow> editor_page" where
  "example_page badge_text =
     \<lparr>currentEditingName = Some ''misp'',
      editor_value = ''version: 3'',
      editor_readOnly = True,
      editor_borderColor = [],
      editor_msg_innerText = [],
      editor_msg_className = [],
      btn_lock_d_none = False,
      btn_save_d_none = True,
      unlock_password_value = [],
      password_error_innerText = [],
      passwordModal_shown = False,
      status_badges = [status_element_id ''connector_misp'' \<mapsto>
         \<lparr>className = ''badge bg-secondary ms-2'', innerText = badge_text\<rparr>],
      alerts = [],
      posted = []\<rparr>"

text \<open>
  The page after \<open>unlockConfig\<close> on a stopped connector, with a password typed in, and
  the page after the right password.
\<close>

definition prompt_page :: "string \<Rightarrow> editor_page" where
  "prompt_page pwd = (unlockConfig (example_page ''Stopped''))\<lparr>unlock_password_value := pwd\<rparr>"

definition unlocked_page :: editor_page where
  "unlocked_page = checkPassword (prompt_page ''P@ssw0rd'')"

definition success_reply :: save_reply where
  "success_reply =
     \<lparr>reply_status = Some ''success'',
      reply_backup = Some ''docker-compose.yml.bak_20260101_120000'',
      reply_error = None\<rparr>"

definition error_reply :: "string \<Rightarrow> save_reply" where
  "error_reply e = \<lparr>reply_status = Some ''error'', reply_backup = None, reply_error = Some e\<rparr>"

text \<open>Two badges, and a \<open>status_update\<close> message for them.\<close>

definition example_badges :: badges where
  "example_badges =
     [status_element_id ''core'' \<mapsto>
        \<lparr>className = ''badge bg-secondary ms-2'', innerText = ''Checking...''\<rparr>,
      status_element_id ''connector_misp'' \<mapsto>
        \<lparr>className = ''badge bg-success ms-2'', innerText = ''Running''\<rparr>]"

definition example_status_update :: "(string \<times> string) list" where
  "example_status_update = [(''core'', ''running''), (''connector_misp'', ''exited'')]"

text \<open>
  The page with the six charts as \<open>createMqChart\<close> and \<open>createHistChart\<close> make
  them, each with a labels array of its own, and the same page after the history
  callback on an empty history; a formatter of natural numbers and a block of the
  broker in each state.
\<close>

definition example_panel :: "nat dashboard" where
  "example_panel =
     \<lparr>mq_status_className = ''badge bg-secondary'',
      mq_status_innerText = ''Unknown'',
      mq_queued_innerText = ''-'',
      mq_total_innerText = ''-'',
      mq_rate_in_innerText = ''-'',
      mq_rate_out_innerText = ''-'',
      label_arrays = (\<lambda>a. []),
      next_array = 6,
      chartQueued = \<lparr>labels_at = 0, plot_data0 = [], plot_data1 = None\<rparr>,
      chartTotal = \<lparr>labels_at = 1, plot_data0 = [], plot_data1 = None\<rparr>,
      chartRate = \<lparr>labels_at = 2, plot_data0 = [], plot_data1 = Some []\<rparr>,
      histCpu = \<lparr>labels_at = 3, plot_data0 = [], plot_data1 = None\<rparr>,
      histRam = \<lparr>labels_at = 4, plot_data0 = [], plot_data1 = None\<rparr>,
      histDisk = \<lparr>labels_at = 5, plot_data0 = [], plot_data1 = None\<rparr>\<rparr>"

definition shared_panel :: "nat dashboard" where
  "shared_panel = loadHistory_then example_panel (Some [])"

definition example_format :: "nat number_format" where
  "example_format =
     \<lparr>toLocaleString = (\<lambda>n. if n = 0 then ''0'' else ''7''),
      toFixed1 = (\<lambda>n. if n = 0 then ''0.0'' else ''7.0'')\<rparr>"

definition online_block :: "nat rabbitmq" where
  "online_block =
     \<lparr>status = ''online'', error = None, messages_ready = 7, messages_total = 7,
      publish_rate = 0, deliver_rate = 0\<rparr>"

definition offline_block :: "string option \<Rightarrow> nat rabbitmq" where
  "offline_block e =
     \<lparr>status = ''offline'', error = e, messages_ready = 0, messages_total = 0,
      publish_rate = 0, deliver_rate = 0\<rparr>"












section \<open>Chart buffers\<close>

lemma updateChart_labels:
  "labels (updateChart c l v w) =
     (if length (labels c) > 20 then tl (labels c) else labels c) @ [l]"
  by (simp add: updateChart_def Let_def split: option.splits)

lemma updateChart_data0:
  "data0 (updateChart c l v w) =
     (if length (labels c) > 20 then tl (data0 c) else data0 c) @ [v]"
  by (simp add: updateChart_def Let_def split: option.splits)

lemma updateChart_calls_labels_length:
  "length (labels c) \<le> 21 \<Longrightarrow>
   length (labels (updateChart_calls c calls)) = min (length (labels c) + length calls) 21"
proof (induction calls arbitrary: c)
  case Nil
  then show ?case by simp
next
  case (Cons call calls)
  obtain l v w where call: "call = (l, v, w)" by (cases call)
  have step: "length (labels (updateChart c l v w)) = min (length (labels c) + 1) 21"
    using Cons.prems by (auto simp: updateChart_labels)
  have "length (labels (updateChart c l v w)) \<le> 21"
    using step by simp
  from Cons.IH [OF this] show ?case
    using Cons.prems by (simp add: call step)
qed

text \<open>
  C6. The chart buffers are said to hold at most 20 points, as the comment above the
  test in \<open>updateChart\<close> says (\<open>Limit history to 20 points\<close>). The test is
  \<open>labels.length > 20\<close>, so a buffer of exactly 20 labels is not shifted before the
  push: starting from the empty chart, the 21st call leaves 21 labels and 21 points in
  the primary dataset.
\<close>

theorem updateChart_holds_21_points:
  "length (labels (updateChart_calls (createMqChart False)
      (replicate 21 (''12:00:00'', 0::nat, None)))) = 21 \<and>
   length (data0 (updateChart_calls (createMqChart False)
      (replicate 21 (''12:00:00'', 0::nat, None)))) = 21"
  by code_simp

section \<open>Terminal\<close>

text \<open>
  C7. After any sequence of \<open>command_output\<close> events the terminal holds what it held
  before, followed by the lines of the events in delivery order.
\<close>

theorem command_output_appends_in_order:
  "deliver_command_output terminal events = terminal @ map line events"
  by (induction events arbitrary: terminal)
     (simp_all add: on_command_output_def logToTerminal_def)

section \<open>Status badges\<close>

lemma status_element_id_inj: "(status_element_id a = status_element_id b) = (a = b)"
  by (simp add: status_element_id_def)

lemma status_update_entry_other:
  "k \<noteq> key \<Longrightarrow>
   status_update_entry bs (k, st) (status_element_id key) = bs (status_element_id key)"
  by (simp add: status_update_entry_def status_element_id_inj split: option.splits)

lemma on_status_update_other:
  "key \<notin> fst ` set data \<Longrightarrow>
   on_status_update bs data (status_element_id key) = bs (status_element_id key)"
proof (induction data arbitrary: bs)
  case Nil
  then show ?case by simp
next
  case (Cons e data)
  obtain k st where e: "e = (k, st)" by (cases e)
  from Cons.prems e have k: "k \<noteq> key" and rest: "key \<notin> fst ` set data" by auto
  show ?case
    by (simp add: e Cons.IH [OF rest] status_update_entry_other [OF k])
qed

text \<open>
  C9. A \<open>status_update\<close> message is an object, so its keys are distinct. For every key
  of the message whose badge exists, the badge reads \<open>Running\<close> after the handler if
  the key's value is the string \<open>running\<close>, and \<open>Stopped\<close> for every other value.
\<close>

theorem status_update_badge_reads:
  assumes "distinct (map fst data)" and "(key, st0) \<in> set data"
    and "bs (status_element_id key) = Some el"
  shows "\<exists>el'. on_status_update bs data (status_element_id key) = Some el' \<and>
           innerText el' = (if st0 = ''running'' then ''Running'' else ''Stopped'')"
  using assms
proof (induction data arbitrary: bs el)
  case Nil
  then show ?case by simp
next
  case (Cons e data)
  obtain k st where e: "e = (k, st)" by (cases e)
  show ?case
  proof (cases "k = key")
    case True
    with Cons.prems e have notin: "key \<notin> fst ` set data" by auto
    have "st = st0"
    proof (rule ccontr)
      assume "st \<noteq> st0"
      with Cons.prems(2) e True have "(key, st0) \<in> set data" by auto
      with notin show False by force
    qed
    with True e Cons.prems(3) show ?thesis
      by (simp add: on_status_update_other [OF notin] status_update_entry_def)
  next
    case False
    with Cons.prems e have "distinct (map fst data)" "(key, st0) \<in> set data" by auto
    moreover have "status_update_entry bs (k, st) (status_element_id key) = Some el"
      using False Cons.prems(3) by (simp add: status_update_entry_other)
    ultimately show ?thesis using Cons.IH e by simp
  qed
qed

theorem status_update_badge_reads_witness:
  "(\<exists>el'. on_status_update example_badges example_status_update (status_element_id ''core'')
           = Some el' \<and> innerText el' = ''Running'') \<and>
   (\<exists>el'. on_status_update example_badges example_status_update
             (status_element_id ''connector_misp'') = Some el' \<and> innerText el' = ''Stopped'')"
  using status_update_badge_reads [of example_status_update "''core''" "''running''"
      example_badges "\<lparr>className = ''badge bg-secondary ms-2'', innerText = ''Checking...''\<rparr>"]
    status_update_badge_reads [of example_status_update "''connector_misp''" "''exited''"
      example_badges "\<lparr>className = ''badge bg-success ms-2'', innerText = ''Running''\<rparr>"]
  by (simp add: example_status_update_def example_badges_def status_element_id_def)

text \<open>The handler keeps every badge within the texts the script writes.\<close>

lemma status_update_entry_texts:
  assumes "\<forall>i b. bs i = Some b \<longrightarrow> innerText b \<in> badge_texts"
  shows "\<forall>i b. status_update_entry bs e i = Some b \<longrightarrow> innerText b \<in> badge_texts"
  using assms
  by (cases e) (auto simp: status_update_entry_def badge_texts_def split: option.splits if_splits)

lemma on_status_update_texts:
  "\<forall>i b. bs i = Some b \<longrightarrow> innerText b \<in> badge_texts \<Longrightarrow>
   \<forall>i b. on_status_update bs data i = Some b \<longrightarrow> innerText b \<in> badge_texts"
proof (induction data arbitrary: bs)
  case Nil
  then show ?case by simp
next
  case (Cons e data)
  from Cons.IH [OF status_update_entry_texts [OF Cons.prems, of e]] show ?case by simp
qed

section \<open>Config editor\<close>

lemma toLowerCase_Running: "toLowerCase ''Running'' = ''running''"
  by (simp add: toLowerCase_def toLowerCase_char_def)

lemma toLowerCase_badge_texts:
  "t \<in> badge_texts \<Longrightarrow> (toLowerCase t = ''running'') = (t = ''Running'')"
  by (auto simp: badge_texts_def toLowerCase_def toLowerCase_char_def)

text \<open>
  C4. The badge of the connector being edited, when there is one, reads one of the
  texts the script writes to a status badge. If it reads \<open>Running\<close>, \<open>unlockConfig\<close>
  shows the alert and changes nothing else; in every other case, also when there is no
  badge, it clears the password field and its error and opens the password modal.
\<close>

theorem unlockConfig_prompts_unless_running:
  assumes "\<forall>t. displayed_status s = Some t \<longrightarrow> t \<in> badge_texts"
  shows "(displayed_status s = Some ''Running'' \<longrightarrow>
            unlockConfig s = s\<lparr>alerts := alerts s @
              [''You must STOP the connector before editing the configuration.'']\<rparr>) \<and>
         (displayed_status s \<noteq> Some ''Running'' \<longrightarrow>
            unlockConfig s = s\<lparr>unlock_password_value := [],
                                password_error_innerText := [],
                                passwordModal_shown := True\<rparr>)"
proof (cases "status_badges s (status_badge_id s)")
  case None
  then show ?thesis by (simp add: unlockConfig_def displayed_status_def)
next
  case (Some b)
  with assms have "innerText b \<in> badge_texts" by (simp add: displayed_status_def)
  from toLowerCase_badge_texts [OF this] Some show ?thesis
    by (simp add: unlockConfig_def displayed_status_def toLowerCase_Running)
qed

theorem unlockConfig_prompts_unless_running_witness:
  "displayed_status (example_page ''Running'') = Some ''Running'' \<and>
   unlockConfig (example_page ''Running'') =
     (example_page ''Running'')\<lparr>alerts :=
        [''You must STOP the connector before editing the configuration.'']\<rparr> \<and>
   \<not> passwordModal_shown (unlockConfig (example_page ''Running'')) \<and>
   displayed_status (example_page ''Stopped'') = Some ''Stopped'' \<and>
   passwordModal_shown (unlockConfig (example_page ''Stopped'')) \<and>
   alerts (unlockConfig (example_page ''Stopped'')) = []"
  using unlockConfig_prompts_unless_running [of "example_page ''Running''"]
    unlockConfig_prompts_unless_running [of "example_page ''Stopped''"]
  by (simp add: example_page_def displayed_status_def status_badge_id_def template_of_def
      badge_texts_def)

text \<open>
  C3. With the credential \<open>P@ssw0rd\<close> in the password field, \<open>checkPassword\<close> hides
  the password modal, makes the editor writable, hides the lock button and shows the
  save button. With anything else in the field it sets the error text to
  \<open>Incorrect password.\<close> and changes nothing else. So a read-only editor is writable
  after the call if and only if the field held the credential.
\<close>

theorem checkPassword_unlocks_iff_credential:
  "(unlock_password_value s = ''P@ssw0rd'' \<longrightarrow>
      checkPassword s = s\<lparr>passwordModal_shown := False, editor_readOnly := False,
                           editor_borderColor := ''#ffc107'', btn_lock_d_none := True,
                           btn_save_d_none := False\<rparr>) \<and>
   (unlock_password_value s \<noteq> ''P@ssw0rd'' \<longrightarrow>
      checkPassword s = s\<lparr>password_error_innerText := ''Incorrect password.''\<rparr>) \<and>
   (editor_readOnly s \<longrightarrow>
      (\<not> editor_readOnly (checkPassword s)) = (unlock_password_value s = ''P@ssw0rd''))"
  by (simp add: checkPassword_def)

theorem checkPassword_unlocks_iff_credential_witness:
  "passwordModal_shown (prompt_page ''P@ssw0rd'') \<and>
   editor_readOnly (prompt_page ''P@ssw0rd'') \<and>
   \<not> passwordModal_shown (checkPassword (prompt_page ''P@ssw0rd'')) \<and>
   \<not> editor_readOnly (checkPassword (prompt_page ''P@ssw0rd'')) \<and>
   \<not> btn_save_d_none (checkPassword (prompt_page ''P@ssw0rd'')) \<and>
   checkPassword (prompt_page ''p@ssw0rd'') =
     (prompt_page ''p@ssw0rd'')\<lparr>password_error_innerText := ''Incorrect password.''\<rparr> \<and>
   editor_readOnly (checkPassword (prompt_page ''p@ssw0rd''))"
  using checkPassword_unlocks_iff_credential [of "prompt_page ''P@ssw0rd''"]
    checkPassword_unlocks_iff_credential [of "prompt_page ''p@ssw0rd''"]
  by (simp add: prompt_page_def unlockConfig_def example_page_def status_badge_id_def
      template_of_def toLowerCase_def toLowerCase_char_def)

text \<open>
  C2, as stated, says that a reply with a status other than \<open>success\<close> has its error
  string displayed. A reply whose error string is empty is shown as \<open>Save failed\<close>.
\<close>

theorem saveConfig_empty_error_counterexample:
  "reply_status (error_reply []) \<noteq> Some ''success'' \<and>
   reply_error (error_reply []) = Some [] \<and>
   editor_msg_innerText (saveConfig_settled (saveConfig unlocked_page) (Json (error_reply [])))
     = ''Save failed'' \<and>
   editor_msg_innerText (saveConfig_settled (saveConfig unlocked_page) (Json (error_reply [])))
     \<noteq> []"
  by (simp add: error_reply_def saveConfig_settled_def saveConfig_then_def js_or_def)

text \<open>
  C2, amended. When the reply to a save has the status \<open>success\<close>, the callback makes
  the editor read-only, shows the lock button, hides the save button and displays the
  backup name of the reply after \<open>Saved! Backup: \<close>. When the reply has any other
  status, or none, the callback changes only the message: it leaves the editor as
  writable as it was and displays the reply's error string when the reply has one that
  is not empty, and \<open>Save failed\<close> otherwise.
\<close>

theorem saveConfig_relocks_on_success:
  "(reply_status data = Some ''success'' \<longrightarrow>
      editor_readOnly (saveConfig_settled s (Json data)) \<and>
      \<not> btn_lock_d_none (saveConfig_settled s (Json data)) \<and>
      btn_save_d_none (saveConfig_settled s (Json data)) \<and>
      editor_msg_innerText (saveConfig_settled s (Json data)) =
        ''Saved! Backup: '' @
          (case reply_backup data of None \<Rightarrow> ''undefined'' | Some b \<Rightarrow> b)) \<and>
   (reply_status data \<noteq> Some ''success'' \<longrightarrow>
      saveConfig_settled s (Json data) =
        s\<lparr>editor_msg_className := ''text-danger small ms-2'',
          editor_msg_innerText :=
            (case reply_error data of
               None \<Rightarrow> ''Save failed''
             | Some e \<Rightarrow> if e = [] then ''Save failed'' else e)\<rparr>)"
  by (simp add: saveConfig_settled_def saveConfig_then_def js_or_def split: option.splits)

theorem saveConfig_relocks_on_success_witness:
  "\<not> editor_readOnly (saveConfig unlocked_page) \<and>
   editor_readOnly (saveConfig_settled (saveConfig unlocked_page) (Json success_reply)) \<and>
   \<not> btn_lock_d_none (saveConfig_settled (saveConfig unlocked_page) (Json success_reply)) \<and>
   btn_save_d_none (saveConfig_settled (saveConfig unlocked_page) (Json success_reply)) \<and>
   editor_msg_innerText (saveConfig_settled (saveConfig unlocked_page) (Json success_reply)) =
     ''Saved! Backup: docker-compose.yml.bak_20260101_120000'' \<and>
   \<not> editor_readOnly (saveConfig_settled (saveConfig unlocked_page)
        (Json (error_reply ''Connector is running''))) \<and>
   editor_msg_innerText (saveConfig_settled (saveConfig unlocked_page)
        (Json (error_reply ''Connector is running''))) = ''Connector is running''"
  using saveConfig_relocks_on_success [of success_reply "saveConfig unlocked_page"]
    saveConfig_relocks_on_success [of "error_reply ''Connector is running''"
      "saveConfig unlocked_page"]
  by (simp add: success_reply_def error_reply_def saveConfig_def unlocked_page_def
      checkPassword_def prompt_page_def)

section \<open>Queue broker panel\<close>

lemma updateChart_data1:
  "data1 (updateChart c l v w) =
     map_option (\<lambda>d. (if length (labels c) > 20 then tl d else d) @
                        (case w of None \<Rightarrow> [] | Some v2 \<Rightarrow> [v2])) (data1 c)"
  by (simp add: updateChart_def Let_def split: option.splits)

lemma updateChart_one_point: "one_point_appended c (updateChart c l v w) l v w"
proof (cases "length (labels c) > 20")
  case True
  then have "labels (updateChart c l v w) = drop 1 (labels c) @ [l] \<and>
             data0 (updateChart c l v w) = drop 1 (data0 c) @ [v] \<and>
             data1 (updateChart c l v w) =
               map_option (\<lambda>d. drop 1 d @ (case w of None \<Rightarrow> [] | Some v2 \<Rightarrow> [v2])) (data1 c)"
    by (simp add: updateChart_labels updateChart_data0 updateChart_data1 drop_Suc)
  then show ?thesis unfolding one_point_appended_def by (intro exI [of _ 1]) simp
next
  case False
  then have "labels (updateChart c l v w) = drop 0 (labels c) @ [l] \<and>
             data0 (updateChart c l v w) = drop 0 (data0 c) @ [v] \<and>
             data1 (updateChart c l v w) =
               map_option (\<lambda>d. drop 0 d @ (case w of None \<Rightarrow> [] | Some v2 \<Rightarrow> [v2])) (data1 c)"
    by (simp add: updateChart_labels updateChart_data0 updateChart_data1)
  then show ?thesis unfolding one_point_appended_def by (intro exI [of _ 0]) simp
qed

text \<open>One \<open>updateChart\<close> on a chart of the page.\<close>

lemma updateChart_at_arrays:
  "fst (updateChart_at h p l v w) = h(labels_at p := labels (updateChart (chart_of h p) l v w))"
  by (simp add: updateChart_at_def Let_def)

lemma updateChart_at_other:
  "a \<noteq> labels_at p \<Longrightarrow> fst (updateChart_at h p l v w) a = h a"
  by (simp add: updateChart_at_arrays)

lemma updateChart_at_address:
  "labels_at (snd (updateChart_at h p l v w)) = labels_at p"
  by (simp add: updateChart_at_def Let_def)

lemma updateChart_at_chart:
  "chart_of (fst (updateChart_at h p l v w)) (snd (updateChart_at h p l v w)) =
   updateChart (chart_of h p) l v w"
  by (simp add: updateChart_at_def Let_def chart_of_def)

lemma updateChart_at_values:
  "one_value_appended p (snd (updateChart_at h p l v w)) v w"
proof -
  from updateChart_one_point [of "chart_of h p" l v w]
  obtain k where "k \<le> 1"
    and "data0 (updateChart (chart_of h p) l v w) = drop k (plot_data0 p) @ [v]"
    and "data1 (updateChart (chart_of h p) l v w) =
           map_option (\<lambda>d. drop k d @ (case w of None \<Rightarrow> [] | Some v2 \<Rightarrow> [v2])) (plot_data1 p)"
    by (auto simp: one_point_appended_def chart_of_def)
  then show ?thesis
    unfolding one_value_appended_def
    by (intro exI [of _ k]) (simp add: updateChart_at_def Let_def)
qed

lemma chart_of_same_array:
  "h' (labels_at p) = h (labels_at p) \<Longrightarrow> chart_of h' p = chart_of h p"
  by (simp add: chart_of_def)

text \<open>
  C8, as stated, fails in two ways. A block that is not online and whose error string
  is empty is shown as \<open>Offline (Err)\<close>, not with its error string. And on the page
  as the history callback leaves it, where the charts read one labels array, an online
  message leaves three new labels in the array that the chart of queued messages reads,
  next to the one new value of its dataset: the chart has not gained exactly one point.
\<close>

theorem system_stats_counterexample:
  "status (offline_block (Some [])) \<noteq> ''online'' \<and>
   error (offline_block (Some [])) = Some [] \<and>
   mq_status_innerText
     (on_system_stats example_format (''12:00:00'', ''12:00:00'', ''12:00:01'') example_panel
        (Some (offline_block (Some [])))) = ''Offline (Err)'' \<and>
   mq_status_innerText
     (on_system_stats example_format (''12:00:00'', ''12:00:00'', ''12:00:01'') example_panel
        (Some (offline_block (Some [])))) \<noteq> ''Offline ()'' \<and>
   status online_block = ''online'' \<and>
   chart_of (label_arrays shared_panel) (chartQueued shared_panel) =
     \<lparr>labels = [], data0 = [], data1 = None\<rparr> \<and>
   chart_of
     (label_arrays (on_system_stats example_format (''12:00:00'', ''12:00:00'', ''12:00:01'')
        shared_panel (Some online_block)))
     (chartQueued (on_system_stats example_format (''12:00:00'', ''12:00:00'', ''12:00:01'')
        shared_panel (Some online_block))) =
     \<lparr>labels = [''12:00:00'', ''12:00:00'', ''12:00:01''], data0 = [7], data1 = None\<rparr> \<and>
   \<not> one_point_appended
     (chart_of (label_arrays shared_panel) (chartQueued shared_panel))
     (chart_of
       (label_arrays (on_system_stats example_format (''12:00:00'', ''12:00:00'', ''12:00:01'')
          shared_panel (Some online_block)))
       (chartQueued (on_system_stats example_format (''12:00:00'', ''12:00:00'', ''12:00:01'')
          shared_panel (Some online_block))))
     ''12:00:00'' 7 None"
proof -
  have a: "chart_of (label_arrays shared_panel) (chartQueued shared_panel) =
     \<lparr>labels = [], data0 = [], data1 = None\<rparr>"
    by (simp add: shared_panel_def loadHistory_then_def example_panel_def chart_of_def)
  have b: "chart_of
     (label_arrays (on_system_stats example_format (''12:00:00'', ''12:00:00'', ''12:00:01'')
        shared_panel (Some online_block)))
     (chartQueued (on_system_stats example_format (''12:00:00'', ''12:00:00'', ''12:00:01'')
        shared_panel (Some online_block))) =
     \<lparr>labels = [''12:00:00'', ''12:00:00'', ''12:00:01''], data0 = [7], data1 = None\<rparr>"
    by (simp add: shared_panel_def loadHistory_then_def example_panel_def chart_of_def
        on_system_stats_def online_block_def updateChart_at_def updateChart_def Let_def)
  have c: "\<not> one_point_appended \<lparr>labels = [], data0 = [], data1 = None\<rparr>
     \<lparr>labels = [''12:00:00'', ''12:00:00'', ''12:00:01''], data0 = [7::nat], data1 = None\<rparr>
     ''12:00:00'' 7 None"
    by (simp add: one_point_appended_def)
  have d: "mq_status_innerText
     (on_system_stats example_format (''12:00:00'', ''12:00:00'', ''12:00:01'') example_panel
        (Some (offline_block (Some [])))) = ''Offline (Err)''"
    by (simp add: offline_block_def on_system_stats_def js_or_def)
  have e: "status (offline_block (Some [])) \<noteq> ''online'' \<and>
    error (offline_block (Some [])) = Some [] \<and> status online_block = ''online''"
    by (simp add: offline_block_def online_block_def)
  from a b c d e show ?thesis by simp
qed

text \<open>
  C8, amended. For a message with a rabbitmq block whose status is not \<open>online\<close>, the
  handler sets the indicator to \<open>Offline (e)\<close>, where \<open>e\<close> is the block's error
  string when the block has one that is not empty and \<open>Err\<close> otherwise, and changes
  nothing else: not the four text fields, not the three charts, not a labels array.
  When the status is \<open>online\<close>, the indicator reads \<open>Online\<close>, the four text fields
  hold the block's numbers as formatted, and the datasets of each of the three charts
  have gained one value; where the three charts have a labels array each, each chart
  has gained exactly one point, label and value.
\<close>

theorem system_stats_rabbitmq_panel:
  assumes "p' = on_system_stats fmt (t1, t2, t3) p (Some mq)"
  shows "(status mq \<noteq> ''online'' \<longrightarrow>
      p' = p\<lparr>mq_status_className := ''badge bg-danger'',
             mq_status_innerText := ''Offline ('' @
               (case error mq of None \<Rightarrow> ''Err'' | Some e \<Rightarrow> if e = [] then ''Err'' else e)
               @ '')''\<rparr>) \<and>
   (status mq = ''online'' \<longrightarrow>
      mq_status_innerText p' = ''Online'' \<and>
      mq_queued_innerText p' = toLocaleString fmt (messages_ready mq) \<and>
      mq_total_innerText p' = toLocaleString fmt (messages_total mq) \<and>
      mq_rate_in_innerText p' = toFixed1 fmt (publish_rate mq) \<and>
      mq_rate_out_innerText p' = toFixed1 fmt (deliver_rate mq) \<and>
      one_value_appended (chartQueued p) (chartQueued p') (messages_ready mq) None \<and>
      one_value_appended (chartTotal p) (chartTotal p') (messages_total mq) None \<and>
      one_value_appended (chartRate p) (chartRate p') (publish_rate mq)
        (Some (deliver_rate mq)) \<and>
      (distinct [labels_at (chartQueued p), labels_at (chartTotal p), labels_at (chartRate p)]
       \<longrightarrow>
         one_point_appended (chart_of (label_arrays p) (chartQueued p))
           (chart_of (label_arrays p') (chartQueued p')) t1 (messages_ready mq) None \<and>
         one_point_appended (chart_of (label_arrays p) (chartTotal p))
           (chart_of (label_arrays p') (chartTotal p')) t2 (messages_total mq) None \<and>
         one_point_appended (chart_of (label_arrays p) (chartRate p))
           (chart_of (label_arrays p') (chartRate p')) t3 (publish_rate mq)
           (Some (deliver_rate mq))))"
proof (cases "status mq = ''online''")
  case False
  with assms show ?thesis
    by (simp add: on_system_stats_def js_or_def split: option.splits)
next
  case True
  let ?h0 = "label_arrays p"
  let ?u1 = "updateChart_at ?h0 (chartQueued p) t1 (messages_ready mq) None"
  let ?u2 = "updateChart_at (fst ?u1) (chartTotal p) t2 (messages_total mq) None"
  let ?u3 = "updateChart_at (fst ?u2) (chartRate p) t3 (publish_rate mq)
               (Some (deliver_rate mq))"
  have p': "p' = p\<lparr>mq_status_className := ''badge bg-success'',
                   mq_status_innerText := ''Online'',
                   mq_queued_innerText := toLocaleString fmt (messages_ready mq),
                   mq_total_innerText := toLocaleString fmt (messages_total mq),
                   mq_rate_in_innerText := toFixed1 fmt (publish_rate mq),
                   mq_rate_out_innerText := toFixed1 fmt (deliver_rate mq),
                   label_arrays := fst ?u3,
                   chartQueued := snd ?u1,
                   chartTotal := snd ?u2,
                   chartRate := snd ?u3\<rparr>"
    using assms True by (simp add: on_system_stats_def split_beta)
  have texts: "mq_status_innerText p' = ''Online'' \<and>
      mq_queued_innerText p' = toLocaleString fmt (messages_ready mq) \<and>
      mq_total_innerText p' = toLocaleString fmt (messages_total mq) \<and>
      mq_rate_in_innerText p' = toFixed1 fmt (publish_rate mq) \<and>
      mq_rate_out_innerText p' = toFixed1 fmt (deliver_rate mq)"
    by (simp add: p')
  have charts: "chartQueued p' = snd ?u1" "chartTotal p' = snd ?u2" "chartRate p' = snd ?u3"
    and arrays: "label_arrays p' = fst ?u3"
    by (simp_all add: p')
  have vals: "one_value_appended (chartQueued p) (chartQueued p') (messages_ready mq) None \<and>
      one_value_appended (chartTotal p) (chartTotal p') (messages_total mq) None \<and>
      one_value_appended (chartRate p) (chartRate p') (publish_rate mq)
        (Some (deliver_rate mq))"
    unfolding charts by (intro conjI updateChart_at_values)
  have points: "one_point_appended (chart_of (label_arrays p) (chartQueued p))
           (chart_of (label_arrays p') (chartQueued p')) t1 (messages_ready mq) None \<and>
         one_point_appended (chart_of (label_arrays p) (chartTotal p))
           (chart_of (label_arrays p') (chartTotal p')) t2 (messages_total mq) None \<and>
         one_point_appended (chart_of (label_arrays p) (chartRate p))
           (chart_of (label_arrays p') (chartRate p')) t3 (publish_rate mq)
           (Some (deliver_rate mq))"
    if d: "distinct [labels_at (chartQueued p), labels_at (chartTotal p), labels_at (chartRate p)]"
  proof -
    from d have qt: "labels_at (chartQueued p) \<noteq> labels_at (chartTotal p)"
      and qr: "labels_at (chartQueued p) \<noteq> labels_at (chartRate p)"
      and tr: "labels_at (chartTotal p) \<noteq> labels_at (chartRate p)"
      by simp_all
    have q: "chart_of (fst ?u3) (snd ?u1) = chart_of (fst ?u1) (snd ?u1)"
      by (rule chart_of_same_array)
         (simp add: updateChart_at_other updateChart_at_address qt qr)
    have t0: "chart_of (fst ?u1) (chartTotal p) = chart_of ?h0 (chartTotal p)"
      by (rule chart_of_same_array) (simp add: updateChart_at_other qt [symmetric])
    have t: "chart_of (fst ?u3) (snd ?u2) = chart_of (fst ?u2) (snd ?u2)"
      by (rule chart_of_same_array)
         (simp add: updateChart_at_other updateChart_at_address tr)
    have r0: "chart_of (fst ?u2) (chartRate p) = chart_of ?h0 (chartRate p)"
      by (rule chart_of_same_array)
         (simp add: updateChart_at_other qr [symmetric] tr [symmetric])
    have "one_point_appended (chart_of ?h0 (chartQueued p)) (chart_of (fst ?u3) (snd ?u1))
            t1 (messages_ready mq) None"
      unfolding q updateChart_at_chart by (rule updateChart_one_point)
    moreover have "one_point_appended (chart_of ?h0 (chartTotal p)) (chart_of (fst ?u3) (snd ?u2))
            t2 (messages_total mq) None"
      unfolding t updateChart_at_chart t0 by (rule updateChart_one_point)
    moreover have "one_point_appended (chart_of ?h0 (chartRate p)) (chart_of (fst ?u3) (snd ?u3))
            t3 (publish_rate mq) (Some (deliver_rate mq))"
      unfolding updateChart_at_chart r0 by (rule updateChart_one_point)
    ultimately show ?thesis unfolding charts arrays by blast
  qed
  from True texts vals points show ?thesis by blast
qed

theorem system_stats_rabbitmq_panel_witness:
  "on_system_stats example_format (''12:00:00'', ''12:00:00'', ''12:00:01'') example_panel
     (Some (offline_block (Some ''timed out''))) =
     example_panel\<lparr>mq_status_className := ''badge bg-danger'',
                   mq_status_innerText := ''Offline (timed out)''\<rparr> \<and>
   mq_queued_innerText (on_system_stats example_format
     (''12:00:00'', ''12:00:00'', ''12:00:01'') example_panel (Some online_block)) = ''7'' \<and>
   mq_rate_out_innerText (on_system_stats example_format
     (''12:00:00'', ''12:00:00'', ''12:00:01'') example_panel (Some online_block)) = ''0.0'' \<and>
   one_value_appended (chartRate shared_panel)
     (chartRate (on_system_stats example_format (''12:00:00'', ''12:00:00'', ''12:00:01'')
        shared_panel (Some online_block))) 0 (Some 0) \<and>
   distinct [labels_at (chartQueued example_panel), labels_at (chartTotal example_panel),
             labels_at (chartRate example_panel)] \<and>
   one_point_appended (chart_of (label_arrays example_panel) (chartRate example_panel))
     (chart_of
        (label_arrays (on_system_stats example_format
           (''12:00:00'', ''12:00:00'', ''12:00:01'') example_panel (Some online_block)))
        (chartRate (on_system_stats example_format
           (''12:00:00'', ''12:00:00'', ''12:00:01'') example_panel (Some online_block))))
     ''12:00:01'' 0 (Some 0)"
  using system_stats_rabbitmq_panel [OF refl, of "offline_block (Some ''timed out'')"
      example_format "''12:00:00''" "''12:00:00''" "''12:00:01''" example_panel]
    system_stats_rabbitmq_panel [OF refl, of online_block example_format
      "''12:00:00''" "''12:00:00''" "''12:00:01''" example_panel]
    system_stats_rabbitmq_panel [OF refl, of online_block example_format
      "''12:00:00''" "''12:00:00''" "''12:00:01''" shared_panel]
  by (simp add: offline_block_def online_block_def example_format_def example_panel_def)

text \<open>
  After the history callback the six charts read the one new array, so the condition
  of the last part of the theorem fails from then on.
\<close>

lemma loadHistory_then_shares_labels:
  "labels_at (chartQueued (loadHistory_then p d)) = next_array p \<and>
   labels_at (chartTotal (loadHistory_then p d)) = next_array p \<and>
   labels_at (chartRate (loadHistory_then p d)) = next_array p \<and>
   labels_at (histCpu (loadHistory_then p d)) = next_array p \<and>
   labels_at (histRam (loadHistory_then p d)) = next_array p \<and>
   labels_at (histDisk (loadHistory_then p d)) = next_array p"
  by (simp add: loadHistory_then_def Let_def)

section \<open>Connector cards\<close>

lemma wf_ids_distinct: "wf_ids c \<Longrightarrow> distinct (map nid (children c))"
  by (simp add: wf_ids_def)



lemma connector_card_simps [simp]:
  "is_card (connector_card nm b)"
  "data_name (connector_card nm b) = nm"
  "(data_valid (connector_card nm b) = ''true'') = b"
  "connector_card nm b \<noteq> Loading"
  by (simp_all add: connector_card_def)




lemma card_names_append [simp]: "card_names (xs @ ys) = card_names xs @ card_names ys"
  by (simp add: card_names_def querySelectorAll_cards_def)

lemma card_attrs_append [simp]: "card_attrs (xs @ ys) = card_attrs xs @ card_attrs ys"
  by (simp add: card_attrs_def querySelectorAll_cards_def)



lemma card_names_Nil [simp]: "card_names [] = []" "card_attrs [] = []"
  by (simp_all add: card_names_def card_attrs_def querySelectorAll_cards_def)










































end
